theory Spec2Isabelle
  imports Complex_Main "HOL-Library.Sublist" "HOL-Library.AList"
begin

section \<open>Exceptions\<close>

text \<open>
  The Python exceptions that the modelled code can raise. \<open>LibraryError n\<close> stands for an
  exception raised inside the \<open>n\<close>-th effectful call of \<open>do_train\<close> (a TensorFlow or
  file-system failure), which the scripts never catch.
\<close>

datatype exn =
    KeyError string
  | ValueError string
  | TypeError string
  | AttributeError string
  | UnboundLocalError string
  | FileNotFoundError string
  | ZeroDivisionError
  | SystemExit int
  | LibraryError nat

section \<open>The model class \<open>LSTM_CTC\<close> (models/ctc/lstm_ctc.py)\<close>

text \<open>
  \<open>ctcBase.__init__\<close> is not part of the sources; the attributes it stores and that
  \<open>LSTM_CTC\<close> reads are taken as given, in a record.
\<close>

record ctc_base =
  num_unit :: int
  num_layer :: int
  num_classes :: int
  parameter_init :: real
  clip_activation :: "real option"

record lstm_ctc =
  base :: ctc_base
  num_proj :: "int option"
  bottleneck_dim :: "int option"

text \<open>\<open>self.num_proj = None if num_proj == 0 else num_proj\<close>; \<open>None == 0\<close> is false.\<close>

definition LSTM_CTC_init :: "ctc_base \<Rightarrow> int option \<Rightarrow> int option \<Rightarrow> lstm_ctc" where
  "LSTM_CTC_init b num_proj_arg bottleneck_dim_arg =
     \<lparr> base = b,
       num_proj = (if num_proj_arg = Some 0 then None else num_proj_arg),
       bottleneck_dim = bottleneck_dim_arg \<rparr>"

text \<open>
  What \<open>_build\<close> adds to the graph: one \<open>LSTMCell\<close> per layer, the reshape of the RNN
  outputs to \<open>[-1, output_node]\<close>, the optional bottleneck affine layer and the output
  affine layer. Shapes are kept; the tensors' values are the library's.
\<close>

record lstm_cell =
  scope :: nat
  cell_num_units :: int
  use_peepholes :: bool
  cell_clip :: "real option"
  init_minval :: real
  init_maxval :: real
  cell_num_proj :: "int option"
  forget_bias :: real

record lstm_graph =
  cells :: "lstm_cell list"
  reshape_dim :: int
  W_bottleneck :: "(int \<times> int) option"
  W_output :: "int \<times> int"
  b_output :: int

definition make_cell :: "lstm_ctc \<Rightarrow> nat \<Rightarrow> lstm_cell" where
  "make_cell self i_layer =
     \<lparr> scope = i_layer + 1,
       cell_num_units = num_unit (base self),
       use_peepholes = True,
       cell_clip = clip_activation (base self),
       init_minval = - parameter_init (base self),
       init_maxval = parameter_init (base self),
       cell_num_proj = num_proj self,
       forget_bias = 1 \<rparr>"

definition build :: "lstm_ctc \<Rightarrow> lstm_graph" where
  "build self =
     (let lstm_list = map (make_cell self) [0..<nat (num_layer (base self))];
          output_node = (case num_proj self of None \<Rightarrow> num_unit (base self) | Some p \<Rightarrow> p);
          use_bottleneck = (bottleneck_dim self \<noteq> None \<and> bottleneck_dim self \<noteq> Some 0);
          output_node' = (if use_bottleneck then the (bottleneck_dim self) else output_node)
      in \<lparr> cells = lstm_list,
           reshape_dim = output_node,
           W_bottleneck =
             (if use_bottleneck then Some (output_node, the (bottleneck_dim self)) else None),
           W_output = (output_node', num_classes (base self)),
           b_output = num_classes (base self) \<rparr>)"

section \<open>The scripts' entry points\<close>

text \<open>
  The world a script runs in is introduced below; the entry points only pass it on.
  \<open>sys.argv\<close> holds the script's name and then the arguments. The entry point of
  \<open>train_multitask_ctc.py\<close> leaves with \<open>sys.exit(0)\<close>, the one of
  \<open>train_attention.py\<close> raises a bare \<open>ValueError\<close>. The function \<open>m\<close> is the
  script's \<open>main\<close>.
\<close>

definition entry_csj ::
  "(string \<Rightarrow> 'w \<Rightarrow> exn option \<times> 'w) \<Rightarrow> string list \<Rightarrow> 'w \<Rightarrow> exn option \<times> 'w" where
  "entry_csj m args w =
     (if length args \<noteq> 2 then (Some (SystemExit 0), w) else m (args ! 1) w)"

definition entry_timit ::
  "(string \<Rightarrow> 'w \<Rightarrow> exn option \<times> 'w) \<Rightarrow> string list \<Rightarrow> 'w \<Rightarrow> exn option \<times> 'w" where
  "entry_timit m args w =
     (if length args \<noteq> 2 then (Some (ValueError []), w) else m (args ! 1) w)"

section \<open>Configuration values\<close>

text \<open>
  The value that \<open>yaml.load\<close> returns for a configuration file: a mapping, a string, an
  integer, a float (an exact real here) or \<open>None\<close>. A mapping is an association list
  read with \<open>map_of\<close>.
\<close>

datatype yaml = YNull | YInt int | YFloat real | YStr string | YDict "(string \<times> yaml) list"

definition bindE :: "exn + 'a \<Rightarrow> ('a \<Rightarrow> exn + 'b) \<Rightarrow> exn + 'b" where
  "bindE m f = (case m of Inl e \<Rightarrow> Inl e | Inr v \<Rightarrow> f v)"

text \<open>\<open>d[k]\<close>: a missing key raises \<open>KeyError\<close>, a value that is no mapping \<open>TypeError\<close>.\<close>

fun subscript :: "yaml \<Rightarrow> string \<Rightarrow> exn + yaml" where
  "subscript (YDict kvs) k = (case map_of kvs k of None \<Rightarrow> Inl (KeyError k) | Some v \<Rightarrow> Inr v)"
| "subscript _ k = Inl (TypeError ''subscript'')"

text \<open>\<open>v == s\<close> for a string literal \<open>s\<close>, and \<open>v != n\<close> for an integer literal \<open>n\<close>.\<close>

fun eq_str :: "yaml \<Rightarrow> string \<Rightarrow> bool" where
  "eq_str (YStr t) s = (t = s)"
| "eq_str _ s = False"

fun neq_int :: "yaml \<Rightarrow> int \<Rightarrow> bool" where
  "neq_int (YInt i) n = (i \<noteq> n)"
| "neq_int (YFloat r) n = (r \<noteq> of_int n)"
| "neq_int _ n = True"

text \<open>\<open>'...' + v\<close>: only a string can be appended to a string.\<close>

fun as_str :: "yaml \<Rightarrow> exn + string" where
  "as_str (YStr s) = Inr s"
| "as_str _ = Inl (TypeError ''str + non-str'')"

text \<open>\<open>v.upper()\<close>, on ASCII letters; only strings have the method.\<close>

definition upper_char :: "char \<Rightarrow> char" where
  "upper_char c =
     (let n = (of_char c :: nat) in if 97 \<le> n \<and> n \<le> 122 then char_of (n - 32) else c)"

fun upper :: "yaml \<Rightarrow> exn + string" where
  "upper (YStr s) = Inr (map upper_char s)"
| "upper _ = Inl (AttributeError ''upper'')"

text \<open>
  \<open>str(v)\<close>: decimal digits for an integer, the string itself for a string. The text of
  a float or of a mapping is left to the parameter \<open>repr\<close>.
\<close>

function str_nat :: "nat \<Rightarrow> string" where
  "str_nat n =
     (if n < 10 then [char_of (48 + n)] else str_nat (n div 10) @ [char_of (48 + n mod 10)])"
  by pat_completeness auto
termination
  by (relation "measure (\<lambda>n. n)") auto

definition str_int :: "int \<Rightarrow> string" where
  "str_int i = (if i < 0 then CHR ''-'' # str_nat (nat (- i)) else str_nat (nat i))"

fun py_str :: "(yaml \<Rightarrow> string) \<Rightarrow> yaml \<Rightarrow> string" where
  "py_str repr (YStr s) = s"
| "py_str repr (YInt i) = str_int i"
| "py_str repr YNull = ''None''"
| "py_str repr v = repr v"

text \<open>\<open>a * b\<close> on configuration values: numbers multiply, a string is repeated.\<close>

fun py_mul :: "yaml \<Rightarrow> yaml \<Rightarrow> exn + yaml" where
  "py_mul (YInt a) (YInt b) = Inr (YInt (a * b))"
| "py_mul (YInt a) (YFloat b) = Inr (YFloat (of_int a * b))"
| "py_mul (YFloat a) (YInt b) = Inr (YFloat (a * of_int b))"
| "py_mul (YFloat a) (YFloat b) = Inr (YFloat (a * b))"
| "py_mul (YStr s) (YInt n) = Inr (YStr (concat (replicate (nat n) s)))"
| "py_mul (YInt n) (YStr s) = Inr (YStr (concat (replicate (nat n) s)))"
| "py_mul _ _ = Inl (TypeError ''*'')"

text \<open>
  \<open>float(v)\<close>: whether a string spells a number is the library's business, the
  parameter \<open>float_ok\<close>.
\<close>

fun py_float :: "(string \<Rightarrow> bool) \<Rightarrow> yaml \<Rightarrow> exn + unit" where
  "py_float float_ok (YInt i) = Inr ()"
| "py_float float_ok (YFloat r) = Inr ()"
| "py_float float_ok (YStr s) = (if float_ok s then Inr () else Inl (ValueError ''float''))"
| "py_float float_ok _ = Inl (TypeError ''float'')"

section \<open>Paths and the file system\<close>

text \<open>\<open>os.path.join\<close> of two components (posixpath).\<close>

definition join :: "string \<Rightarrow> string \<Rightarrow> string" where
  "join a b =
     (if b \<noteq> [] \<and> hd b = CHR ''/'' then b
      else if a = [] \<or> last a = CHR ''/'' then a @ b
      else a @ ''/'' @ b)"

text \<open>
  The world of a run: the files that the scripts name themselves (a file is identified
  with the value \<open>yaml.load\<close> gives on it, an empty file with \<open>None\<close>), the directories,
  where \<open>sys.stdout\<close> points (\<open>None\<close>: the terminal) and the trace of the library calls
  made by \<open>do_train\<close>. Files that TensorFlow keeps for itself (checkpoints, event files)
  and the CSV files are in the trace only.
\<close>

datatype placeholder =
    P_inputs | P_labels | P_labels_second | P_inputs_seq_len | P_labels_seq_len
  | P_keep_prob_input | P_keep_prob_hidden | P_lr | P_labels_st_true | P_labels_st_pred

datatype 't fval = Tensor 't | Scalar yaml

type_synonym 't feed = "(placeholder \<times> 't fval) list"

datatype metric = CER | PER

datatype 't event =
    Ev_DataSet string
  | Ev_Graph
  | Ev_Session
  | Ev_Next string nat
  | Ev_Train nat "'t feed"
  | Ev_Loss nat "'t feed"
  | Ev_Decode nat "'t feed"
  | Ev_Ler nat "'t feed"
  | Ev_Summary nat
  | Ev_Checkpoint string int
  | Ev_EvalDev metric int
  | Ev_EvalTest metric int
  | Ev_SaveLoss "int list" "real list" "real list" string
  | Ev_SaveLer "int list" "real list" "real list" string
  | Ev_Write string

record 't world =
  files :: "(string \<times> yaml) list"
  dirs :: "string list"
  stdout :: "string option"
  trace :: "'t event list"

definition isfile :: "string \<Rightarrow> 't world \<Rightarrow> bool" where
  "isfile p w = (map_of (files w) p \<noteq> None)"

text \<open>\<open>open(p, 'w')\<close> followed by nothing or by \<open>write('')\<close>: the file exists and is empty.\<close>

definition create :: "string \<Rightarrow> 't world \<Rightarrow> 't world" where
  "create p w = w\<lparr>files := (p, YNull) # filter (\<lambda>(q, _). q \<noteq> p) (files w)\<rparr>"

text \<open>
  Modelled from the spec: \<open>utils.directory.mkdir\<close> and \<open>mkdir_join\<close> are not among the
  sources. The spec has the scripts write "a checkpoint directory": \<open>mkdir\<close> makes the
  directory when it is not there and returns its path, \<open>mkdir_join\<close> does so for the
  joined path. Neither touches a file.
\<close>

definition mkdir :: "string \<Rightarrow> 't world \<Rightarrow> string \<times> 't world" where
  "mkdir d w = (d, if d \<in> set (dirs w) then w else w\<lparr>dirs := d # dirs w\<rparr>)"

definition mkdir_join :: "string \<Rightarrow> string \<Rightarrow> 't world \<Rightarrow> string \<times> 't world" where
  "mkdir_join d name w = mkdir (join d name) w"

text \<open>
  \<open>tf.gfile.DeleteRecursively\<close> removes the directory and all below it,
  \<open>tf.gfile.MakeDirs\<close> makes it again.
\<close>

definition under :: "string \<Rightarrow> string \<Rightarrow> bool" where
  "under d p = (p = d \<or> prefix (join d []) p)"

definition DeleteRecursively :: "string \<Rightarrow> 't world \<Rightarrow> 't world" where
  "DeleteRecursively d w =
     w\<lparr>files := filter (\<lambda>(p, _). \<not> under d p) (files w),
       dirs := filter (\<lambda>p. \<not> under d p) (dirs w)\<rparr>"

definition MakeDirs :: "string \<Rightarrow> 't world \<Rightarrow> 't world" where
  "MakeDirs d w = (if d \<in> set (dirs w) then w else w\<lparr>dirs := d # dirs w\<rparr>)"

text \<open>\<open>shutil.copyfile(src, dst)\<close>.\<close>

definition copyfile :: "string \<Rightarrow> string \<Rightarrow> 't world \<Rightarrow> exn + 't world" where
  "copyfile src dst w =
     (case map_of (files w) src of
        None \<Rightarrow> Inl (FileNotFoundError src)
      | Some c \<Rightarrow> Inr (w\<lparr>files := (dst, c) # filter (\<lambda>(q, _). q \<noteq> dst) (files w)\<rparr>))"

text \<open>
  The "Reset model directory" block of both \<open>main\<close> functions: without a
  \<open>complete.txt\<close> the directory is emptied, with one the run is refused.
\<close>

definition reset_model_dir :: "string \<Rightarrow> 't world \<Rightarrow> exn + 't world" where
  "reset_model_dir model_dir w =
     (if \<not> isfile (join model_dir ''complete.txt'') w
      then Inr (MakeDirs model_dir (DeleteRecursively model_dir w))
      else Inl (ValueError ''File exists.''))"

section \<open>Running the calls of \<open>do_train\<close>\<close>

text \<open>
  \<open>do_train\<close> is a sequence of library calls. Each one is recorded in the trace; writing
  \<open>complete.txt\<close> also changes the files. A call may raise: \<open>fault = Some k\<close> makes the
  call number \<open>k\<close> raise, and the run ends there with the calls before it done.
\<close>

fun perform :: "'t event \<Rightarrow> 't world \<Rightarrow> 't world" where
  "perform (Ev_Write p) w = (create p w)\<lparr>trace := trace w @ [Ev_Write p]\<rparr>"
| "perform e w = w\<lparr>trace := trace w @ [e]\<rparr>"

definition run_events :: "nat option \<Rightarrow> 't event list \<Rightarrow> 't world \<Rightarrow> exn option \<times> 't world" where
  "run_events fault evs w =
     (case fault of
        None \<Rightarrow> (None, fold perform evs w)
      | Some k \<Rightarrow>
          if k < length evs then (Some (LibraryError k), fold perform (take k evs) w)
          else (None, fold perform evs w))"

section \<open>What the scripts take from the libraries\<close>

text \<open>
  The data sets, the TensorFlow session and the evaluation routines are not part of the
  sources. Their results are parameters: the mini-batch that a generator yields at a
  step, the value a \<open>sess.run\<close> returns for a feed dictionary at a step, the error rate
  an evaluation returns at an epoch. Tensors and arrays are values of a type \<open>'t\<close>.
\<close>

record 't batch_csj =
  b_inputs :: 't
  b_labels_main_st :: 't
  b_labels_second_st :: 't
  b_inputs_seq_len :: 't

record 't batch_timit =
  t_inputs :: 't
  t_labels :: 't
  t_inputs_seq_len :: 't
  t_labels_seq_len :: 't

record 't lib =
  repr :: "yaml \<Rightarrow> string"
  float_ok :: "string \<Rightarrow> bool"
  data_num :: int
  csj_train :: "nat \<Rightarrow> 't batch_csj"
  csj_dev :: "nat \<Rightarrow> 't batch_csj"
  timit_train :: "nat \<Rightarrow> 't batch_timit"
  timit_dev :: "nat \<Rightarrow> 't batch_timit"
  sess_loss :: "nat \<Rightarrow> 't feed \<Rightarrow> real"
  sess_ler2 :: "nat \<Rightarrow> 't feed \<Rightarrow> real \<times> real"
  sess_decode :: "nat \<Rightarrow> 't feed \<Rightarrow> 't"
  sess_ler :: "nat \<Rightarrow> 't feed \<Rightarrow> real"
  list2sparsetensor :: "'t \<Rightarrow> 't"
  eval_dev :: "int \<Rightarrow> real"
  eval_test :: "int \<Rightarrow> real"

text \<open>
  The network object, as far as the scripts read and write it: the keyword arguments it
  was constructed from, the two dropout ratios it keeps, its name and its directory.
\<close>

record network =
  kwargs :: "(string \<times> yaml) list"
  dropout_ratio_input :: yaml
  dropout_ratio_hidden :: yaml
  model_name :: string
  model_dir :: string

section \<open>The arithmetic of the training loop\<close>

text \<open>
  \<open>train_data.data_num / batch_size\<close> is a true division (\<open>from __future__ import
  division\<close>), taken exactly here; \<open>int(x)\<close> truncates towards zero.
\<close>

fun py_truediv :: "int \<Rightarrow> yaml \<Rightarrow> exn + real" where
  "py_truediv a (YInt b) = (if b = 0 then Inl ZeroDivisionError else Inr (of_int a / of_int b))"
| "py_truediv a (YFloat b) = (if b = 0 then Inl ZeroDivisionError else Inr (of_int a / b))"
| "py_truediv a _ = Inl (TypeError ''/'')"

definition py_int :: "real \<Rightarrow> int" where
  "py_int x = (if 0 \<le> x then \<lfloor>x\<rfloor> else \<lceil>x\<rceil>)"

definition iter_per_epoch :: "int \<Rightarrow> yaml \<Rightarrow> exn + int" where
  "iter_per_epoch dn batch_size =
     bindE (py_truediv dn batch_size) (\<lambda>q.
       Inr (if q \<noteq> of_int (py_int q) then py_int q + 1 else py_int q))"

text \<open>
  \<open>max_steps = iter_per_epoch * epoch_num\<close>, then \<open>range(max_steps)\<close>: anything but an
  integer \<open>epoch_num\<close> ends in a \<open>TypeError\<close>, in the product or in \<open>range\<close>.
\<close>

fun max_steps :: "int \<Rightarrow> yaml \<Rightarrow> exn + int" where
  "max_steps ipe (YInt n) = Inr (ipe * n)"
| "max_steps ipe _ = Inl (TypeError ''range'')"

text \<open>The condition of "Save checkpoint and evaluate model per epoch".\<close>

definition epoch_end :: "int \<Rightarrow> int \<Rightarrow> nat \<Rightarrow> bool" where
  "epoch_end ipe ms step = ((int step + 1) mod ipe = 0 \<or> int step + 1 = ms)"

definition eval_mode :: "'t feed \<Rightarrow> 't feed" where
  "eval_mode fd =
     AList.update P_keep_prob_hidden (Scalar (YFloat 1))
       (AList.update P_keep_prob_input (Scalar (YFloat 1)) fd)"

record 't csv_log =
  csv_steps :: "int list"
  csv_loss_train :: "real list"
  csv_loss_dev :: "real list"
  evs :: "'t event list"

section \<open>\<open>do_train\<close> of train_multitask_ctc.py\<close>

record 't loop_csj = "'t csv_log" +
  csv_ler_main_train :: "real list"
  csv_ler_main_dev :: "real list"
  csv_ler_second_train :: "real list"
  csv_ler_second_dev :: "real list"
  ler_main_dev_best :: real

definition feed_dict_train_csj :: "network \<Rightarrow> yaml \<Rightarrow> 't batch_csj \<Rightarrow> 't feed" where
  "feed_dict_train_csj net learning_rate tb =
     [(P_inputs, Tensor (b_inputs tb)),
      (P_labels, Tensor (b_labels_main_st tb)),
      (P_labels_second, Tensor (b_labels_second_st tb)),
      (P_inputs_seq_len, Tensor (b_inputs_seq_len tb)),
      (P_keep_prob_input, Scalar (dropout_ratio_input net)),
      (P_keep_prob_hidden, Scalar (dropout_ratio_hidden net)),
      (P_lr, Scalar learning_rate)]"

text \<open>
  The dev mini-batch rebinds \<open>inputs\<close> and \<open>inputs_seq_len\<close>; its labels go to
  \<open>labels_main\<close> and \<open>labels_second\<close>, which the dictionary does not use:
  \<open>labels_main_st\<close> and \<open>labels_second_st\<close> are still those of the train mini-batch.
\<close>

definition feed_dict_dev_csj :: "network \<Rightarrow> 't batch_csj \<Rightarrow> 't batch_csj \<Rightarrow> 't feed" where
  "feed_dict_dev_csj net tb db =
     [(P_inputs, Tensor (b_inputs db)),
      (P_labels, Tensor (b_labels_main_st tb)),
      (P_labels_second, Tensor (b_labels_second_st tb)),
      (P_inputs_seq_len, Tensor (b_inputs_seq_len db)),
      (P_keep_prob_input, Scalar (dropout_ratio_input net)),
      (P_keep_prob_hidden, Scalar (dropout_ratio_hidden net))]"

text \<open>The metrics block, every 200 steps.\<close>

definition log_csj :: "'t lib \<Rightarrow> 't feed \<Rightarrow> 't feed \<Rightarrow> nat \<Rightarrow> 't loop_csj \<Rightarrow> 't loop_csj" where
  "log_csj lb fdt fdd step st =
     (let loss_train = sess_loss lb step fdt;
          loss_dev = sess_loss lb step fdd;
          fdt' = eval_mode fdt;
          fdd' = eval_mode fdd;
          ler_train = sess_ler2 lb step fdt';
          ler_dev = sess_ler2 lb step fdd'
      in st\<lparr>csv_steps := csv_steps st @ [int step],
            csv_loss_train := csv_loss_train st @ [loss_train],
            csv_loss_dev := csv_loss_dev st @ [loss_dev],
            csv_ler_main_train := csv_ler_main_train st @ [fst ler_train],
            csv_ler_main_dev := csv_ler_main_dev st @ [fst ler_dev],
            csv_ler_second_train := csv_ler_second_train st @ [snd ler_train],
            csv_ler_second_dev := csv_ler_second_dev st @ [snd ler_dev],
            evs := evs st @ [Ev_Loss step fdt, Ev_Loss step fdd, Ev_Ler step fdt',
                             Ev_Ler step fdd', Ev_Summary (step + 1), Ev_Summary (step + 1)]\<rparr>)"

text \<open>The checkpoint block: the save, and from epoch 5 on the evaluation on the dev set.\<close>

definition epoch_csj :: "'t lib \<Rightarrow> network \<Rightarrow> int \<Rightarrow> nat \<Rightarrow> 't loop_csj \<Rightarrow> 't loop_csj" where
  "epoch_csj lb net ipe step st =
     (let epoch = (int step + 1) div ipe;
          checkpoint_file = join (model_dir net) ''model.ckpt'';
          st' = st\<lparr>evs := evs st @ [Ev_Checkpoint checkpoint_file epoch]\<rparr>
      in if epoch \<ge> 5
         then (let ler_main_dev_epoch = eval_dev lb epoch
               in st'\<lparr>evs := evs st' @ [Ev_EvalDev CER epoch],
                      ler_main_dev_best :=
                        (if ler_main_dev_epoch < ler_main_dev_best st'
                         then ler_main_dev_epoch else ler_main_dev_best st')\<rparr>)
         else st')"

definition step_csj ::
  "'t lib \<Rightarrow> network \<Rightarrow> yaml \<Rightarrow> int \<Rightarrow> int \<Rightarrow> 't loop_csj \<Rightarrow> nat \<Rightarrow> 't loop_csj" where
  "step_csj lb net learning_rate ipe ms st step =
     (let tb = csj_train lb step;
          fdt = feed_dict_train_csj net learning_rate tb;
          db = csj_dev lb step;
          fdd = feed_dict_dev_csj net tb db;
          st1 = st\<lparr>evs := evs st @ [Ev_Next ''train'' step, Ev_Next ''dev'' step,
                                     Ev_Train step fdt]\<rparr>;
          st2 = (if (int step + 1) mod 200 = 0 then log_csj lb fdt fdd step st1 else st1)
      in if epoch_end ipe ms step then epoch_csj lb net ipe step st2 else st2)"

definition init_csj :: "'t loop_csj" where
  "init_csj =
     \<lparr>csv_steps = [], csv_loss_train = [], csv_loss_dev = [], evs = [],
      csv_ler_main_train = [], csv_ler_main_dev = [],
      csv_ler_second_train = [], csv_ler_second_dev = [], ler_main_dev_best = 1\<rparr>"

definition loop_csj :: "'t lib \<Rightarrow> network \<Rightarrow> yaml \<Rightarrow> int \<Rightarrow> int \<Rightarrow> 't loop_csj" where
  "loop_csj lb net learning_rate ipe ms =
     foldl (step_csj lb net learning_rate ipe ms) init_csj [0..<nat ms]"

text \<open>"Save train \& dev loss, ler".\<close>

definition export_csj :: "network \<Rightarrow> 't loop_csj \<Rightarrow> 't event list" where
  "export_csj net st =
     [Ev_SaveLoss (csv_steps st) (csv_loss_train st) (csv_loss_dev st) (model_dir net),
      Ev_SaveLer (csv_steps st) (csv_ler_main_train st) (csv_ler_second_dev st) (model_dir net),
      Ev_SaveLer (csv_steps st) (csv_ler_second_train st) (csv_ler_second_dev st) (model_dir net)]"

text \<open>
  The calls of \<open>do_train\<close> in order, and the exception that its own code raises after
  them, if any. The other arguments of \<open>do_train\<close> only reach the libraries.
\<close>

definition setup_events_csj :: "'t event list" where
  "setup_events_csj = [Ev_DataSet ''train'', Ev_DataSet ''dev'']"

definition events_csj ::
  "'t lib \<Rightarrow> network \<Rightarrow> yaml \<Rightarrow> yaml \<Rightarrow> yaml \<Rightarrow> 't event list \<times> exn option" where
  "events_csj lb net learning_rate batch_size epoch_num =
     (case py_float (float_ok lb) learning_rate of
        Inl e \<Rightarrow> (setup_events_csj, Some e)
      | Inr _ \<Rightarrow>
     (let pre = setup_events_csj @ [Ev_Graph, Ev_Session] in
      case bindE (iter_per_epoch (data_num lb) batch_size)
             (\<lambda>ipe. bindE (max_steps ipe epoch_num) (\<lambda>ms. Inr (ipe, ms))) of
        Inl e \<Rightarrow> (pre, Some e)
      | Inr (ipe, ms) \<Rightarrow>
          (let st = loop_csj lb net learning_rate ipe ms
           in (pre @ evs st @ export_csj net st
                 @ [Ev_Write (join (model_dir net) ''complete.txt'')], None))))"

definition finish :: "'t event list \<times> exn option \<Rightarrow> nat option \<Rightarrow> 't world \<Rightarrow> exn option \<times> 't world" where
  "finish plan fault w =
     (case run_events fault (fst plan) w of
        (Some e, w') \<Rightarrow> (Some e, w')
      | (None, w') \<Rightarrow> (snd plan, w'))"

definition do_train_csj ::
  "'t lib \<Rightarrow> nat option \<Rightarrow> network \<Rightarrow> yaml \<Rightarrow> yaml \<Rightarrow> yaml \<Rightarrow> 't world \<Rightarrow> exn option \<times> 't world" where
  "do_train_csj lb fault net learning_rate batch_size epoch_num w =
     finish (events_csj lb net learning_rate batch_size epoch_num) fault w"

section \<open>\<open>do_train\<close> of train_attention.py\<close>

record 't loop_timit = "'t csv_log" +
  csv_ler_train :: "real list"
  csv_ler_dev :: "real list"
  error_best :: real

definition feed_dict_timit :: "network \<Rightarrow> 't batch_timit \<Rightarrow> 't feed" where
  "feed_dict_timit net b =
     [(P_inputs, Tensor (t_inputs b)),
      (P_labels, Tensor (t_labels b)),
      (P_inputs_seq_len, Tensor (t_inputs_seq_len b)),
      (P_labels_seq_len, Tensor (t_labels_seq_len b)),
      (P_keep_prob_input, Scalar (dropout_ratio_input net)),
      (P_keep_prob_hidden, Scalar (dropout_ratio_hidden net))]"

definition feed_dict_ler :: "'t lib \<Rightarrow> 't \<Rightarrow> 't \<Rightarrow> 't feed" where
  "feed_dict_ler lb labels predicted_ids =
     [(P_labels_st_true, Tensor (list2sparsetensor lb labels)),
      (P_labels_st_pred, Tensor (list2sparsetensor lb predicted_ids))]"

text \<open>The metrics block, every 10 steps.\<close>

definition log_timit ::
  "'t lib \<Rightarrow> 't feed \<Rightarrow> 't feed \<Rightarrow> 't \<Rightarrow> 't \<Rightarrow> nat \<Rightarrow> 't loop_timit \<Rightarrow> 't loop_timit" where
  "log_timit lb fdt fdd labels_train labels_dev step st =
     (let loss_train = sess_loss lb step fdt;
          loss_dev = sess_loss lb step fdd;
          fdt' = eval_mode fdt;
          fdd' = eval_mode fdd;
          predicted_ids_train = sess_decode lb step fdt';
          predicted_ids_dev = sess_decode lb step fdd';
          feed_dict_ler_train = feed_dict_ler lb labels_train predicted_ids_train;
          feed_dict_ler_dev = feed_dict_ler lb labels_dev predicted_ids_dev;
          ler_train = sess_ler lb step feed_dict_ler_train;
          ler_dev = sess_ler lb step feed_dict_ler_dev
      in st\<lparr>csv_steps := csv_steps st @ [int step],
            csv_loss_train := csv_loss_train st @ [loss_train],
            csv_loss_dev := csv_loss_dev st @ [loss_dev],
            csv_ler_train := csv_ler_train st @ [ler_train],
            csv_ler_dev := csv_ler_dev st @ [ler_dev],
            evs := evs st @ [Ev_Loss step fdt, Ev_Loss step fdd, Ev_Decode step fdt',
                             Ev_Decode step fdd', Ev_Summary (step + 1), Ev_Summary (step + 1),
                             Ev_Ler step feed_dict_ler_train, Ev_Ler step feed_dict_ler_dev]\<rparr>)"

text \<open>
  The checkpoint block: the save, and from epoch 10 on the evaluation on the dev set
  (CER for characters, PER otherwise), followed by the test set on a new best score.
\<close>

definition epoch_timit ::
  "'t lib \<Rightarrow> network \<Rightarrow> yaml \<Rightarrow> int \<Rightarrow> nat \<Rightarrow> 't loop_timit \<Rightarrow> 't loop_timit" where
  "epoch_timit lb net label_type ipe step st =
     (let epoch = (int step + 1) div ipe;
          checkpoint_file = join (model_dir net) ''model.ckpt'';
          st' = st\<lparr>evs := evs st @ [Ev_Checkpoint checkpoint_file epoch]\<rparr>;
          m = (if eq_str label_type ''character'' then CER else PER)
      in if epoch \<ge> 10
         then (let error_dev_epoch = eval_dev lb epoch
               in if error_dev_epoch < error_best st'
                  then st'\<lparr>evs := evs st' @ [Ev_EvalDev m epoch, Ev_EvalTest m epoch],
                           error_best := error_dev_epoch\<rparr>
                  else st'\<lparr>evs := evs st' @ [Ev_EvalDev m epoch]\<rparr>)
         else st')"

definition step_timit ::
  "'t lib \<Rightarrow> network \<Rightarrow> yaml \<Rightarrow> yaml \<Rightarrow> int \<Rightarrow> int \<Rightarrow> 't loop_timit \<Rightarrow> nat \<Rightarrow> 't loop_timit" where
  "step_timit lb net learning_rate label_type ipe ms st step =
     (let tb = timit_train lb step;
          fdt = feed_dict_timit net tb @ [(P_lr, Scalar learning_rate)];
          db = timit_dev lb step;
          fdd = feed_dict_timit net db;
          st1 = st\<lparr>evs := evs st @ [Ev_Next ''train'' step, Ev_Next ''dev'' step,
                                     Ev_Train step fdt]\<rparr>;
          st2 = (if (int step + 1) mod 10 = 0
                 then log_timit lb fdt fdd (t_labels tb) (t_labels db) step st1 else st1)
      in if epoch_end ipe ms step then epoch_timit lb net label_type ipe step st2 else st2)"

definition init_timit :: "'t loop_timit" where
  "init_timit =
     \<lparr>csv_steps = [], csv_loss_train = [], csv_loss_dev = [], evs = [],
      csv_ler_train = [], csv_ler_dev = [], error_best = 1\<rparr>"

definition loop_timit :: "'t lib \<Rightarrow> network \<Rightarrow> yaml \<Rightarrow> yaml \<Rightarrow> int \<Rightarrow> int \<Rightarrow> 't loop_timit" where
  "loop_timit lb net learning_rate label_type ipe ms =
     foldl (step_timit lb net learning_rate label_type ipe ms) init_timit [0..<nat ms]"

definition export_timit :: "network \<Rightarrow> 't loop_timit \<Rightarrow> 't event list" where
  "export_timit net st =
     [Ev_SaveLoss (csv_steps st) (csv_loss_train st) (csv_loss_dev st) (model_dir net),
      Ev_SaveLer (csv_steps st) (csv_ler_train st) (csv_loss_dev st) (model_dir net)]"

definition setup_events_timit :: "'t event list" where
  "setup_events_timit = [Ev_DataSet ''train'', Ev_DataSet ''dev'', Ev_DataSet ''test'']"

definition events_timit ::
  "'t lib \<Rightarrow> network \<Rightarrow> yaml \<Rightarrow> yaml \<Rightarrow> yaml \<Rightarrow> yaml \<Rightarrow> 't event list \<times> exn option" where
  "events_timit lb net learning_rate batch_size epoch_num label_type =
     (case py_float (float_ok lb) learning_rate of
        Inl e \<Rightarrow> (setup_events_timit, Some e)
      | Inr _ \<Rightarrow>
     (let pre = setup_events_timit @ [Ev_Graph, Ev_Session] in
      case bindE (iter_per_epoch (data_num lb) batch_size)
             (\<lambda>ipe. bindE (max_steps ipe epoch_num) (\<lambda>ms. Inr (ipe, ms))) of
        Inl e \<Rightarrow> (pre, Some e)
      | Inr (ipe, ms) \<Rightarrow>
          (let st = loop_timit lb net learning_rate label_type ipe ms
           in (pre @ evs st @ export_timit net st
                 @ [Ev_Write (join (model_dir net) ''complete.txt'')], None))))"

definition do_train_timit ::
  "'t lib \<Rightarrow> nat option \<Rightarrow> network \<Rightarrow> yaml \<Rightarrow> yaml \<Rightarrow> yaml \<Rightarrow> yaml \<Rightarrow> 't world
     \<Rightarrow> exn option \<times> 't world" where
  "do_train_timit lb fault net learning_rate batch_size epoch_num label_type w =
     finish (events_timit lb net learning_rate batch_size epoch_num label_type) fault w"

section \<open>The parts shared by the two \<open>main\<close> functions\<close>

text \<open>
  \<open>with open(config_path, "r") as f: config = yaml.load(f)\<close>, then the three sections.
\<close>

definition load_config :: "string \<Rightarrow> 't world \<Rightarrow> exn + yaml" where
  "load_config config_path w =
     (case map_of (files w) config_path of
        None \<Rightarrow> Inl (FileNotFoundError config_path)
      | Some config \<Rightarrow> Inr config)"

definition sections :: "yaml \<Rightarrow> exn + yaml \<times> yaml \<times> yaml" where
  "sections config =
     bindE (subscript config ''corpus'') (\<lambda>corpus.
     bindE (subscript config ''feature'') (\<lambda>feature.
     bindE (subscript config ''param'') (\<lambda>param.
     Inr (corpus, feature, param))))"

text \<open>A variable that no branch of an \<open>if\<close>/\<open>elif\<close> chain has bound.\<close>

definition bound :: "string \<Rightarrow> int option \<Rightarrow> exn + int" where
  "bound name v = (case v of None \<Rightarrow> Inl (UnboundLocalError name) | Some n \<Rightarrow> Inr n)"

text \<open>One keyword argument \<open>name=d[k]\<close> of a constructor call.\<close>

definition kwarg :: "yaml \<Rightarrow> string \<Rightarrow> string \<Rightarrow> (string \<times> yaml) list \<Rightarrow> exn + (string \<times> yaml) list" where
  "kwarg d k name kw = bindE (subscript d k) (\<lambda>v. Inr (kw @ [(name, v)]))"

text \<open>
  \<open>name += tag + str(d[k])\<close>, and the same under \<open>if d[k] != n\<close> (the test and the
  statement read the same key; one read stands for both).
\<close>

definition suffix :: "(yaml \<Rightarrow> string) \<Rightarrow> yaml \<Rightarrow> string \<Rightarrow> string \<Rightarrow> string \<Rightarrow> exn + string" where
  "suffix rp d k tag name = bindE (subscript d k) (\<lambda>v. Inr (name @ tag @ py_str rp v))"

definition opt_suffix ::
  "(yaml \<Rightarrow> string) \<Rightarrow> yaml \<Rightarrow> string \<Rightarrow> int \<Rightarrow> string \<Rightarrow> string \<Rightarrow> exn + string" where
  "opt_suffix rp d k n tag name =
     bindE (subscript d k) (\<lambda>v. Inr (if neq_int v n then name @ tag @ py_str rp v else name))"

text \<open>\<open>'...' + d[k]\<close>.\<close>

definition str_suffix :: "yaml \<Rightarrow> string \<Rightarrow> string \<Rightarrow> exn + string" where
  "str_suffix d k name = bindE (subscript d k) (\<lambda>v. bindE (as_str v) (\<lambda>s. Inr (name @ s)))"

text \<open>\<open>sys.stdout = open(join(network.model_dir, 'train.log'), 'w')\<close>.\<close>

definition redirect_stdout :: "string \<Rightarrow> 't world \<Rightarrow> 't world" where
  "redirect_stdout p w = (create p w)\<lparr>stdout := Some p\<rparr>"

record train_args =
  a_network :: network
  a_learning_rate :: yaml
  a_batch_size :: yaml
  a_epoch_num :: yaml
  a_label_type :: yaml

section \<open>\<open>main\<close> of train_multitask_ctc.py\<close>

text \<open>
  The two \<open>if\<close>/\<open>elif\<close> chains that bind \<open>output_size_main\<close> and \<open>output_size_second\<close>;
  every test of a chain reads the same key, one read stands for them.
\<close>

definition output_size_main :: "yaml \<Rightarrow> exn + int option" where
  "output_size_main corpus =
     bindE (subscript corpus ''label_type_main'') (\<lambda>v.
     Inr (if eq_str v ''character'' then Some 147
          else if eq_str v ''kanji'' then Some 3386 else None))"

definition output_size_second :: "yaml \<Rightarrow> exn + int option" where
  "output_size_second corpus =
     bindE (subscript corpus ''label_type_second'') (\<lambda>v.
     Inr (if eq_str v ''phone'' then Some 38
          else if eq_str v ''character'' then Some 147 else None))"

text \<open>
  \<open>CTCModel(...)\<close>: the keyword arguments are evaluated from left to right; the class
  itself is the library's.
\<close>

definition construct_csj :: "yaml \<Rightarrow> yaml \<Rightarrow> int option \<Rightarrow> int option \<Rightarrow> exn + network" where
  "construct_csj feature param osm oss =
     bindE (kwarg param ''batch_size'' ''batch_size'' []) (\<lambda>kw.
     bindE (subscript feature ''input_size'') (\<lambda>a.
     bindE (subscript feature ''num_stack'') (\<lambda>b.
     bindE (py_mul a b) (\<lambda>input_size.
     bindE (kwarg param ''num_unit'' ''num_unit'' (kw @ [(''input_size'', input_size)])) (\<lambda>kw.
     bindE (kwarg param ''num_layer_main'' ''num_layer_main'' kw) (\<lambda>kw.
     bindE (kwarg param ''num_layer_second'' ''num_layer_second'' kw) (\<lambda>kw.
     bindE (bound ''output_size_main'' osm) (\<lambda>m.
     bindE (bound ''output_size_second'' oss) (\<lambda>s.
     bindE (kwarg param ''main_task_weight'' ''main_task_weight''
              (kw @ [(''output_size_main'', YInt m), (''output_size_second'', YInt s)])) (\<lambda>kw.
     bindE (kwarg param ''weight_init'' ''parameter_init'' kw) (\<lambda>kw.
     bindE (kwarg param ''clip_grad'' ''clip_grad'' kw) (\<lambda>kw.
     bindE (kwarg param ''clip_activation'' ''clip_activation'' kw) (\<lambda>kw.
     bindE (subscript param ''dropout_input'') (\<lambda>di.
     bindE (subscript param ''dropout_hidden'') (\<lambda>dh.
     bindE (kwarg param ''num_proj'' ''num_proj''
              (kw @ [(''dropout_ratio_input'', di), (''dropout_ratio_hidden'', dh)])) (\<lambda>kw.
     bindE (kwarg param ''weight_decay'' ''weight_decay'' kw) (\<lambda>kw.
     Inr \<lparr>kwargs = kw, dropout_ratio_input = di, dropout_ratio_hidden = dh,
          model_name = [], model_dir = []\<rparr>)))))))))))))))))"

definition model_name_csj :: "(yaml \<Rightarrow> string) \<Rightarrow> yaml \<Rightarrow> yaml \<Rightarrow> yaml \<Rightarrow> yaml \<Rightarrow> exn + string" where
  "model_name_csj rp config corpus feature param =
     bindE (subscript config ''model_name'') (\<lambda>v.
     bindE (upper v) (\<lambda>name.
     bindE (suffix rp param ''num_unit'' ''_'' name) (\<lambda>name.
     bindE (suffix rp param ''num_layer_main'' ''_main'' name) (\<lambda>name.
     bindE (suffix rp param ''num_layer_second'' ''_second'' name) (\<lambda>name.
     bindE (str_suffix param ''optimizer'' (name @ ''_'')) (\<lambda>name.
     bindE (suffix rp param ''learning_rate'' ''_lr'' name) (\<lambda>name.
     bindE (opt_suffix rp param ''bottleneck_dim'' 0 ''_bottoleneck'' name) (\<lambda>name.
     bindE (opt_suffix rp param ''num_proj'' 0 ''_proj'' name) (\<lambda>name.
     bindE (opt_suffix rp feature ''num_stack'' 1 ''_stack'' name) (\<lambda>name.
     bindE (opt_suffix rp param ''weight_decay'' 0 ''_weightdecay'' name) (\<lambda>name.
     bindE (suffix rp param ''main_task_weight'' ''_taskweight'' name) (\<lambda>name.
     bindE (subscript corpus ''train_data_size'') (\<lambda>v.
     Inr (if eq_str v ''large'' then name @ ''_large'' else name))))))))))))))"

text \<open>From the chains to the named network; \<open>load(model_type=config['model_name'])\<close>.\<close>

definition network_csj :: "(yaml \<Rightarrow> string) \<Rightarrow> yaml \<Rightarrow> yaml \<Rightarrow> yaml \<Rightarrow> yaml \<Rightarrow> exn + network" where
  "network_csj rp config corpus feature param =
     bindE (output_size_main corpus) (\<lambda>osm.
     bindE (output_size_second corpus) (\<lambda>oss.
     bindE (subscript config ''model_name'') (\<lambda>model_type.
     bindE (construct_csj feature param osm oss) (\<lambda>net.
     bindE (model_name_csj rp config corpus feature param) (\<lambda>name.
     Inr (net\<lparr>model_name := name\<rparr>))))))"

text \<open>"Set save path".\<close>

definition label_dir_csj :: "yaml \<Rightarrow> exn + string" where
  "label_dir_csj corpus =
     bindE (str_suffix corpus ''label_type_main'' []) (\<lambda>name.
     str_suffix corpus ''label_type_second'' (name @ ''_''))"

definition set_save_path_csj :: "yaml \<Rightarrow> network \<Rightarrow> 't world \<Rightarrow> (exn + network) \<times> 't world" where
  "set_save_path_csj corpus net w =
     (let (d, w) = mkdir ''/n/sd8/inaguma/result/csj/monolog/'' w;
          (d, w) = mkdir_join d ''ctc'' w
      in case label_dir_csj corpus of
           Inl e \<Rightarrow> (Inl e, w)
         | Inr name \<Rightarrow>
             (let (d, w) = mkdir_join d name w;
                  (d, w) = mkdir_join d (model_name net) w
              in (Inr (net\<lparr>model_dir := d\<rparr>), w)))"

text \<open>The argument of \<open>setproctitle\<close>.\<close>

definition proctitle_csj :: "yaml \<Rightarrow> exn + string" where
  "proctitle_csj corpus =
     bindE (str_suffix corpus ''label_type_main'' ''multitaskctc_csj_'') (\<lambda>t.
     bindE (str_suffix corpus ''label_type_second'' (t @ ''_'')) (\<lambda>t.
     str_suffix corpus ''train_data_size'' (t @ ''_'')))"

text \<open>The arguments of the call of \<open>do_train\<close>, from left to right.\<close>

definition args_csj :: "yaml \<Rightarrow> yaml \<Rightarrow> yaml \<Rightarrow> network \<Rightarrow> exn + train_args" where
  "args_csj corpus feature param net =
     bindE (subscript param ''optimizer'') (\<lambda>optimizer.
     bindE (subscript param ''learning_rate'') (\<lambda>learning_rate.
     bindE (subscript param ''batch_size'') (\<lambda>batch_size.
     bindE (subscript param ''num_epoch'') (\<lambda>epoch_num.
     bindE (subscript corpus ''label_type_main'') (\<lambda>label_type_main.
     bindE (subscript corpus ''label_type_second'') (\<lambda>label_type_second.
     bindE (subscript feature ''num_stack'') (\<lambda>num_stack.
     bindE (subscript feature ''num_skip'') (\<lambda>num_skip.
     bindE (subscript corpus ''train_data_size'') (\<lambda>train_data_size.
     Inr \<lparr>a_network = net, a_learning_rate = learning_rate, a_batch_size = batch_size,
          a_epoch_num = epoch_num, a_label_type = label_type_main\<rparr>)))))))))"

text \<open>
  \<open>main\<close> from its first line to "Set save path": the sections of the configuration and
  the network with its name and directory.
\<close>

definition main_network_csj ::
  "'t lib \<Rightarrow> string \<Rightarrow> 't world \<Rightarrow> (exn + yaml \<times> yaml \<times> yaml \<times> network) \<times> 't world" where
  "main_network_csj lb config_path w =
     (case load_config config_path w of Inl e \<Rightarrow> (Inl e, w) | Inr config \<Rightarrow>
     (case sections config of Inl e \<Rightarrow> (Inl e, w) | Inr (corpus, feature, param) \<Rightarrow>
     (case network_csj (repr lb) config corpus feature param of Inl e \<Rightarrow> (Inl e, w) | Inr net \<Rightarrow>
     (case set_save_path_csj corpus net w of
        (Inl e, w) \<Rightarrow> (Inl e, w)
      | (Inr net, w) \<Rightarrow> (Inr (corpus, feature, param, net), w)))))"

text \<open>
  From "Reset model directory" to the call of \<open>do_train\<close>: the arguments of the call, or
  the exception.
\<close>

definition main_setup_csj :: "'t lib \<Rightarrow> string \<Rightarrow> 't world \<Rightarrow> (exn + train_args) \<times> 't world" where
  "main_setup_csj lb config_path w =
     (case main_network_csj lb config_path w of
        (Inl e, w) \<Rightarrow> (Inl e, w)
      | (Inr (corpus, feature, param, net), w) \<Rightarrow>
     (case reset_model_dir (model_dir net) w of Inl e \<Rightarrow> (Inl e, w) | Inr w \<Rightarrow>
     (case proctitle_csj corpus of Inl e \<Rightarrow> (Inl e, w) | Inr title \<Rightarrow>
     (case copyfile config_path (join (model_dir net) ''config.yml'') w of
        Inl e \<Rightarrow> (Inl e, w) | Inr w \<Rightarrow>
     (let w = redirect_stdout (join (model_dir net) ''train.log'') w
      in (case args_csj corpus feature param net of
            Inl e \<Rightarrow> (Inl e, w) | Inr a \<Rightarrow> (Inr a, w)))))))"

definition main_csj :: "'t lib \<Rightarrow> nat option \<Rightarrow> string \<Rightarrow> 't world \<Rightarrow> exn option \<times> 't world" where
  "main_csj lb fault config_path w =
     (case main_setup_csj lb config_path w of
        (Inl e, w) \<Rightarrow> (Some e, w)
      | (Inr a, w) \<Rightarrow>
          (case do_train_csj lb fault (a_network a) (a_learning_rate a) (a_batch_size a)
                  (a_epoch_num a) w of
             (Some e, w) \<Rightarrow> (Some e, w)
           | (None, w) \<Rightarrow> (None, w\<lparr>stdout := None\<rparr>)))"

section \<open>\<open>main\<close> of train_attention.py\<close>

definition output_size_timit :: "yaml \<Rightarrow> exn + int option" where
  "output_size_timit corpus =
     bindE (subscript corpus ''label_type'') (\<lambda>v.
     Inr (if eq_str v ''phone61'' then Some 63
          else if eq_str v ''phone48'' then Some 50
          else if eq_str v ''phone39'' then Some 41
          else if eq_str v ''character'' then Some 33 else None))"

definition construct_timit :: "yaml \<Rightarrow> yaml \<Rightarrow> int option \<Rightarrow> exn + network" where
  "construct_timit feature param os =
     bindE (kwarg param ''batch_size'' ''batch_size'' []) (\<lambda>kw.
     bindE (kwarg feature ''input_size'' ''input_size'' kw) (\<lambda>kw.
     bindE (kwarg param ''encoder_num_unit'' ''encoder_num_unit'' kw) (\<lambda>kw.
     bindE (kwarg param ''encoder_num_layer'' ''encoder_num_layer'' kw) (\<lambda>kw.
     bindE (kwarg param ''attention_dim'' ''attention_dim'' kw) (\<lambda>kw.
     bindE (kwarg param ''decoder_num_unit'' ''decoder_num_unit'' kw) (\<lambda>kw.
     bindE (kwarg param ''decoder_num_layer'' ''decoder_num_layer'' kw) (\<lambda>kw.
     bindE (kwarg param ''embedding_dim'' ''embedding_dim'' kw) (\<lambda>kw.
     bindE (bound ''output_size'' os) (\<lambda>n.
     bindE (kwarg param ''max_decode_length'' ''max_decode_length''
              (kw @ [(''output_size'', YInt n), (''sos_index'', YInt (n - 2)),
                     (''eos_index'', YInt (n - 1))])) (\<lambda>kw.
     bindE (kwarg param ''attention_weights_tempareture'' ''attention_weights_tempareture'' kw) (\<lambda>kw.
     bindE (kwarg param ''logits_tempareture'' ''logits_tempareture'' kw) (\<lambda>kw.
     bindE (kwarg param ''weight_init'' ''parameter_init'' kw) (\<lambda>kw.
     bindE (kwarg param ''clip_grad'' ''clip_grad'' kw) (\<lambda>kw.
     bindE (kwarg param ''clip_activation_encoder'' ''clip_activation_encoder'' kw) (\<lambda>kw.
     bindE (kwarg param ''clip_activation_decoder'' ''clip_activation_decoder'' kw) (\<lambda>kw.
     bindE (subscript param ''dropout_input'') (\<lambda>di.
     bindE (subscript param ''dropout_hidden'') (\<lambda>dh.
     bindE (kwarg param ''weight_decay'' ''weight_decay''
              (kw @ [(''dropout_ratio_input'', di), (''dropout_ratio_hidden'', dh)])) (\<lambda>kw.
     Inr \<lparr>kwargs = kw, dropout_ratio_input = di, dropout_ratio_hidden = dh,
          model_name = [], model_dir = []\<rparr>)))))))))))))))))))"

definition model_name_timit :: "(yaml \<Rightarrow> string) \<Rightarrow> yaml \<Rightarrow> yaml \<Rightarrow> exn + string" where
  "model_name_timit rp config param =
     bindE (subscript config ''model_name'') (\<lambda>v.
     bindE (upper v) (\<lambda>name.
     bindE (suffix rp param ''encoder_num_unit'' ''_encoder'' name) (\<lambda>name.
     bindE (suffix rp param ''encoder_num_layer'' ''_'' name) (\<lambda>name.
     bindE (suffix rp param ''attention_dim'' ''_attdim'' name) (\<lambda>name.
     bindE (suffix rp param ''decoder_num_unit'' ''_decoder'' name) (\<lambda>name.
     bindE (suffix rp param ''decoder_num_layer'' ''_'' name) (\<lambda>name.
     bindE (str_suffix param ''optimizer'' (name @ ''_'')) (\<lambda>name.
     bindE (suffix rp param ''learning_rate'' ''_lr'' name) (\<lambda>name.
     opt_suffix rp param ''weight_decay'' 0 ''_weightdecay'' name)))))))))"

definition network_timit :: "(yaml \<Rightarrow> string) \<Rightarrow> yaml \<Rightarrow> yaml \<Rightarrow> yaml \<Rightarrow> yaml \<Rightarrow> exn + network" where
  "network_timit rp config corpus feature param =
     bindE (output_size_timit corpus) (\<lambda>os.
     bindE (construct_timit feature param os) (\<lambda>net.
     bindE (model_name_timit rp config param) (\<lambda>name.
     Inr (net\<lparr>model_name := name\<rparr>))))"

definition set_save_path_timit :: "yaml \<Rightarrow> network \<Rightarrow> 't world \<Rightarrow> (exn + network) \<times> 't world" where
  "set_save_path_timit corpus net w =
     (let (d, w) = mkdir ''/n/sd8/inaguma/result/timit/attention/'' w
      in case subscript corpus ''label_type'' of
           Inl e \<Rightarrow> (Inl e, w)
         | Inr v \<Rightarrow>
             (case as_str v of
                Inl e \<Rightarrow> (Inl e, w)
              | Inr name \<Rightarrow>
                  (let (d, w) = mkdir_join d name w;
                       (d, w) = mkdir_join d (model_name net) w
                   in (Inr (net\<lparr>model_dir := d\<rparr>), w))))"

definition proctitle_timit :: "yaml \<Rightarrow> exn + string" where
  "proctitle_timit corpus = str_suffix corpus ''label_type'' ''attention_timit_''"

definition args_timit :: "yaml \<Rightarrow> yaml \<Rightarrow> network \<Rightarrow> exn + train_args" where
  "args_timit corpus param net =
     bindE (subscript param ''optimizer'') (\<lambda>optimizer.
     bindE (subscript param ''learning_rate'') (\<lambda>learning_rate.
     bindE (subscript param ''batch_size'') (\<lambda>batch_size.
     bindE (subscript param ''num_epoch'') (\<lambda>epoch_num.
     bindE (subscript corpus ''label_type'') (\<lambda>label_type.
     Inr \<lparr>a_network = net, a_learning_rate = learning_rate, a_batch_size = batch_size,
          a_epoch_num = epoch_num, a_label_type = label_type\<rparr>)))))"

text \<open>
  \<open>main\<close> from its first line to "Set save path": the sections of the configuration and
  the network with its name and directory.
\<close>

definition main_network_timit ::
  "'t lib \<Rightarrow> string \<Rightarrow> 't world \<Rightarrow> (exn + yaml \<times> yaml \<times> yaml \<times> network) \<times> 't world" where
  "main_network_timit lb config_path w =
     (case load_config config_path w of Inl e \<Rightarrow> (Inl e, w) | Inr config \<Rightarrow>
     (case sections config of Inl e \<Rightarrow> (Inl e, w) | Inr (corpus, feature, param) \<Rightarrow>
     (case network_timit (repr lb) config corpus feature param of Inl e \<Rightarrow> (Inl e, w) | Inr net \<Rightarrow>
     (case set_save_path_timit corpus net w of
        (Inl e, w) \<Rightarrow> (Inl e, w)
      | (Inr net, w) \<Rightarrow> (Inr (corpus, feature, param, net), w)))))"

text \<open>
  From "Reset model directory" to the call of \<open>do_train\<close>: the arguments of the call, or
  the exception.
\<close>

definition main_setup_timit :: "'t lib \<Rightarrow> string \<Rightarrow> 't world \<Rightarrow> (exn + train_args) \<times> 't world" where
  "main_setup_timit lb config_path w =
     (case main_network_timit lb config_path w of
        (Inl e, w) \<Rightarrow> (Inl e, w)
      | (Inr (corpus, feature, param, net), w) \<Rightarrow>
     (case reset_model_dir (model_dir net) w of Inl e \<Rightarrow> (Inl e, w) | Inr w \<Rightarrow>
     (case proctitle_timit corpus of Inl e \<Rightarrow> (Inl e, w) | Inr title \<Rightarrow>
     (case copyfile config_path (join (model_dir net) ''config.yml'') w of
        Inl e \<Rightarrow> (Inl e, w) | Inr w \<Rightarrow>
     (let w = redirect_stdout (join (model_dir net) ''train.log'') w
      in (case args_timit corpus param net of
            Inl e \<Rightarrow> (Inl e, w) | Inr a \<Rightarrow> (Inr a, w)))))))"

definition main_timit :: "'t lib \<Rightarrow> nat option \<Rightarrow> string \<Rightarrow> 't world \<Rightarrow> exn option \<times> 't world" where
  "main_timit lb fault config_path w =
     (case main_setup_timit lb config_path w of
        (Inl e, w) \<Rightarrow> (Some e, w)
      | (Inr a, w) \<Rightarrow>
          (case do_train_timit lb fault (a_network a) (a_learning_rate a) (a_batch_size a)
                  (a_epoch_num a) (a_label_type a) w of
             (Some e, w) \<Rightarrow> (Some e, w)
           | (None, w) \<Rightarrow> (None, w\<lparr>stdout := None\<rparr>)))"

section \<open>The scripts\<close>

definition script_csj :: "'t lib \<Rightarrow> nat option \<Rightarrow> string list \<Rightarrow> 't world \<Rightarrow> exn option \<times> 't world" where
  "script_csj lb fault = entry_csj (main_csj lb fault)"

definition script_timit :: "'t lib \<Rightarrow> nat option \<Rightarrow> string list \<Rightarrow> 't world \<Rightarrow> exn option \<times> 't world" where
  "script_timit lb fault = entry_timit (main_timit lb fault)"

section \<open>Reading a trace\<close>

fun is_train :: "'t event \<Rightarrow> bool" where
  "is_train (Ev_Train _ _) = True"
| "is_train _ = False"

fun is_checkpoint :: "'t event \<Rightarrow> bool" where
  "is_checkpoint (Ev_Checkpoint _ _) = True"
| "is_checkpoint _ = False"

fun is_eval_dev :: "'t event \<Rightarrow> bool" where
  "is_eval_dev (Ev_EvalDev _ _) = True"
| "is_eval_dev _ = False"

fun is_export :: "'t event \<Rightarrow> bool" where
  "is_export (Ev_SaveLoss _ _ _ _) = True"
| "is_export (Ev_SaveLer _ _ _ _) = True"
| "is_export _ = False"

fun is_write :: "'t event \<Rightarrow> bool" where
  "is_write (Ev_Write _) = True"
| "is_write _ = False"

section \<open>The keys that the scripts read\<close>

fun has_key :: "yaml \<Rightarrow> string \<Rightarrow> bool" where
  "has_key (YDict kvs) k = (map_of kvs k \<noteq> None)"
| "has_key _ k = False"

definition section_of :: "yaml \<Rightarrow> string \<Rightarrow> yaml" where
  "section_of config s = (case subscript config s of Inl _ \<Rightarrow> YNull | Inr v \<Rightarrow> v)"

definition complete_csj :: "yaml \<Rightarrow> bool" where
  "complete_csj config =
     (list_all (has_key config) [''corpus'', ''feature'', ''param'', ''model_name''] \<and>
      list_all (has_key (section_of config ''corpus''))
        [''label_type_main'', ''label_type_second'', ''train_data_size''] \<and>
      list_all (has_key (section_of config ''feature''))
        [''input_size'', ''num_stack'', ''num_skip''] \<and>
      list_all (has_key (section_of config ''param''))
        [''batch_size'', ''num_unit'', ''num_layer_main'', ''num_layer_second'',
         ''main_task_weight'', ''weight_init'', ''clip_grad'', ''clip_activation'',
         ''dropout_input'', ''dropout_hidden'', ''num_proj'', ''weight_decay'',
         ''optimizer'', ''learning_rate'', ''bottleneck_dim'', ''num_epoch''])"

definition complete_timit :: "yaml \<Rightarrow> bool" where
  "complete_timit config =
     (list_all (has_key config) [''corpus'', ''feature'', ''param'', ''model_name''] \<and>
      list_all (has_key (section_of config ''corpus'')) [''label_type''] \<and>
      list_all (has_key (section_of config ''feature'')) [''input_size''] \<and>
      list_all (has_key (section_of config ''param''))
        [''batch_size'', ''encoder_num_unit'', ''encoder_num_layer'', ''attention_dim'',
         ''decoder_num_unit'', ''decoder_num_layer'', ''embedding_dim'',
         ''max_decode_length'', ''attention_weights_tempareture'', ''logits_tempareture'',
         ''weight_init'', ''clip_grad'', ''clip_activation_encoder'',
         ''clip_activation_decoder'', ''dropout_input'', ''dropout_hidden'',
         ''weight_decay'', ''optimizer'', ''learning_rate'', ''num_epoch''])"

text \<open>
  The exceptions that a statement of \<open>main\<close> before the call of \<open>do_train\<close> can raise.
\<close>

fun raised_by_main :: "exn \<Rightarrow> bool" where
  "raised_by_main (KeyError k) = True"
| "raised_by_main (TypeError s) = True"
| "raised_by_main (AttributeError s) = True"
| "raised_by_main (UnboundLocalError s) = True"
| "raised_by_main (FileNotFoundError s) = True"
| "raised_by_main (ValueError s) = (s = ''File exists.'')"
| "raised_by_main _ = False"

fun is_KeyError :: "exn \<Rightarrow> bool" where
  "is_KeyError (KeyError k) = True"
| "is_KeyError _ = False"

section \<open>Example inputs\<close>

definition ex_base :: ctc_base where
  "ex_base = \<lparr>num_unit = 3, num_layer = 2, num_classes = 4, parameter_init = 1 / 10,
              clip_activation = None\<rparr>"

definition ex_repr :: "yaml \<Rightarrow> string" where
  "ex_repr v =
     (if v = YFloat (1 / 2) then ''0.5'' else if v = YFloat (1 / 1000) then ''0.001'' else ''?'')"

definition ex_lib :: "nat lib" where
  "ex_lib =
     \<lparr>repr = ex_repr, float_ok = (\<lambda>s. False), data_num = 3,
      csj_train = (\<lambda>k. \<lparr>b_inputs = 10 * k, b_labels_main_st = 10 * k + 1,
                         b_labels_second_st = 10 * k + 2, b_inputs_seq_len = 10 * k + 3\<rparr>),
      csj_dev = (\<lambda>k. \<lparr>b_inputs = 10 * k + 5, b_labels_main_st = 10 * k + 6,
                       b_labels_second_st = 10 * k + 7, b_inputs_seq_len = 10 * k + 8\<rparr>),
      timit_train = (\<lambda>k. \<lparr>t_inputs = 10 * k, t_labels = 10 * k + 1,
                           t_inputs_seq_len = 10 * k + 2, t_labels_seq_len = 10 * k + 3\<rparr>),
      timit_dev = (\<lambda>k. \<lparr>t_inputs = 10 * k + 5, t_labels = 10 * k + 6,
                         t_inputs_seq_len = 10 * k + 7, t_labels_seq_len = 10 * k + 8\<rparr>),
      sess_loss = (\<lambda>k fd. 1), sess_ler2 = (\<lambda>k fd. (1 / 2, 1 / 4)), sess_decode = (\<lambda>k fd. 9),
      sess_ler = (\<lambda>k fd. 1 / 2), list2sparsetensor = (\<lambda>t. t),
      eval_dev = (\<lambda>e. 1 / 2), eval_test = (\<lambda>e. 1 / 2)\<rparr>"

text \<open>A configuration of train_multitask_ctc.py, with the entries of its \<open>param\<close> section.\<close>

definition ex_param_csj :: "(string \<times> yaml) list" where
  "ex_param_csj =
     [(''batch_size'', YInt 2), (''num_unit'', YInt 256), (''num_layer_main'', YInt 5),
      (''num_layer_second'', YInt 4), (''bottleneck_dim'', YInt 0),
      (''main_task_weight'', YFloat (1 / 2)), (''weight_init'', YFloat (1 / 10)),
      (''clip_grad'', YNull), (''clip_activation'', YNull),
      (''dropout_input'', YInt 1), (''dropout_hidden'', YInt 1),
      (''num_proj'', YInt 0), (''weight_decay'', YInt 0),
      (''optimizer'', YStr ''adam''), (''learning_rate'', YFloat (1 / 1000))]"

definition ex_config_csj :: "(string \<times> yaml) list \<Rightarrow> yaml" where
  "ex_config_csj param =
     YDict
       [(''model_name'', YStr ''blstm''),
        (''corpus'', YDict [(''label_type_main'', YStr ''kanji''),
                            (''label_type_second'', YStr ''phone''),
                            (''train_data_size'', YStr ''default'')]),
        (''feature'', YDict [(''input_size'', YInt 123), (''num_stack'', YInt 3),
                             (''num_skip'', YInt 3)]),
        (''param'', YDict param)]"

definition ex_dir_csj :: string where
  "ex_dir_csj =
     ''/n/sd8/inaguma/result/csj/monolog/ctc/kanji_phone/''
       @ ''BLSTM_256_main5_second4_adam_lr0.001_stack3_taskweight0.5''"

text \<open>A configuration of train_attention.py.\<close>

definition ex_param_timit :: "(string \<times> yaml) list" where
  "ex_param_timit =
     [(''batch_size'', YInt 2), (''encoder_num_unit'', YInt 256),
      (''encoder_num_layer'', YInt 2), (''attention_dim'', YInt 128),
      (''decoder_num_unit'', YInt 256), (''decoder_num_layer'', YInt 1),
      (''embedding_dim'', YInt 64), (''max_decode_length'', YInt 50),
      (''attention_weights_tempareture'', YInt 1), (''logits_tempareture'', YInt 1),
      (''weight_init'', YFloat (1 / 10)), (''clip_grad'', YNull),
      (''clip_activation_encoder'', YNull), (''clip_activation_decoder'', YNull),
      (''dropout_input'', YInt 1), (''dropout_hidden'', YInt 1), (''weight_decay'', YInt 0),
      (''optimizer'', YStr ''adam''), (''learning_rate'', YFloat (1 / 1000))]"

definition ex_config_timit :: "(string \<times> yaml) list \<Rightarrow> yaml" where
  "ex_config_timit param =
     YDict
       [(''model_name'', YStr ''blstm_attention''),
        (''corpus'', YDict [(''label_type'', YStr ''phone61'')]),
        (''feature'', YDict [(''input_size'', YInt 123)]),
        (''param'', YDict param)]"

definition ex_dir_timit :: string where
  "ex_dir_timit =
     ''/n/sd8/inaguma/result/timit/attention/phone61/''
       @ ''BLSTM_ATTENTION_encoder256_2_attdim128_decoder256_1_adam_lr0.001''"

text \<open>
  A world with the configuration file \<open>conf.yml\<close>, the given other files and the given
  directories.
\<close>

definition ex_world :: "yaml \<Rightarrow> (string \<times> yaml) list \<Rightarrow> string list \<Rightarrow> nat world" where
  "ex_world config others ds =
     \<lparr>files = (''conf.yml'', config) # others, dirs = ds, stdout = None, trace = []\<rparr>"

section \<open>The entry points\<close>

text \<open>
  C4. Each script takes exactly one command-line argument, the path of the configuration
  file. With any other number of arguments (\<open>len(sys.argv) \<noteq> 2\<close>) the process ends,
  by \<open>sys.exit(0)\<close> in train_multitask_ctc.py and by \<open>ValueError\<close> in train_attention.py,
  whatever \<open>main\<close> would do and with the world untouched; with exactly one argument the
  script is \<open>main\<close> applied to it.
\<close>

theorem entry_one_argument:
  "(length args \<noteq> 2 \<longrightarrow>
      entry_csj m args w = (Some (SystemExit 0), w)
      \<and> entry_timit m args w = (Some (ValueError []), w)
      \<and> script_csj lb fault args w' = (Some (SystemExit 0), w')
      \<and> script_timit lb fault args w' = (Some (ValueError []), w'))
   \<and> script_csj lb fault [prog, config_path] w' = main_csj lb fault config_path w'
   \<and> script_timit lb fault [prog, config_path] w' = main_timit lb fault config_path w'"
  by (simp add: entry_csj_def entry_timit_def script_csj_def script_timit_def)

text \<open>The scripts called with no argument, and with the path \<open>conf.yml\<close>.\<close>

theorem entry_one_argument_witness:
  "length [''train_multitask_ctc.py''] \<noteq> 2
   \<and> script_csj ex_lib None [''train_multitask_ctc.py''] (ex_world YNull [] [])
       = (Some (SystemExit 0), ex_world YNull [] [])
   \<and> script_timit ex_lib None [''train_attention.py''] (ex_world YNull [] [])
       = (Some (ValueError []), ex_world YNull [] [])
   \<and> script_csj ex_lib None [''train_multitask_ctc.py'', ''conf.yml''] (ex_world YNull [] [])
       = main_csj ex_lib None ''conf.yml'' (ex_world YNull [] [])"
  using entry_one_argument [of "[''train_multitask_ctc.py'']" undefined "ex_world YNull [] []"
      ex_lib None "ex_world YNull [] []" "''train_multitask_ctc.py''" "''conf.yml''"]
    entry_one_argument [of "[''train_attention.py'']" undefined "ex_world YNull [] []"
      ex_lib None "ex_world YNull [] []" "''train_multitask_ctc.py''" "''conf.yml''"]
  by simp

section \<open>The feed dictionary of the dev mini-batch\<close>

text \<open>
  C8. In \<open>do_train\<close> of train_multitask_ctc.py, at every step the feed dictionary of the
  dev mini-batch binds \<open>network.labels\<close> and \<open>network.labels_second\<close> to the sparse labels
  of the train mini-batch of that step; only its inputs and sequence lengths are those of
  the dev mini-batch. This holds in evaluation mode as well, and at a step that logs
  metrics the dev loss and the two dev label error rates appended to the CSV series are
  the values the session returns for this dictionary.
\<close>

theorem dev_feed_has_train_labels:
  "map_of (feed_dict_dev_csj net (csj_train lb step) (csj_dev lb step)) P_labels
     = Some (Tensor (b_labels_main_st (csj_train lb step)))
   \<and> map_of (feed_dict_dev_csj net (csj_train lb step) (csj_dev lb step)) P_labels_second
     = Some (Tensor (b_labels_second_st (csj_train lb step)))
   \<and> map_of (feed_dict_dev_csj net (csj_train lb step) (csj_dev lb step)) P_inputs
     = Some (Tensor (b_inputs (csj_dev lb step)))
   \<and> map_of (feed_dict_dev_csj net (csj_train lb step) (csj_dev lb step)) P_inputs_seq_len
     = Some (Tensor (b_inputs_seq_len (csj_dev lb step)))
   \<and> map_of (eval_mode (feed_dict_dev_csj net (csj_train lb step) (csj_dev lb step))) P_labels
     = Some (Tensor (b_labels_main_st (csj_train lb step)))
   \<and> map_of (eval_mode (feed_dict_dev_csj net (csj_train lb step) (csj_dev lb step)))
       P_labels_second
     = Some (Tensor (b_labels_second_st (csj_train lb step)))
   \<and> ((int step + 1) mod 200 = 0 \<longrightarrow>
        csv_loss_dev (step_csj lb net lr ipe ms st step)
          = csv_loss_dev st
              @ [sess_loss lb step (feed_dict_dev_csj net (csj_train lb step) (csj_dev lb step))]
        \<and> csv_ler_main_dev (step_csj lb net lr ipe ms st step)
          = csv_ler_main_dev st
              @ [fst (sess_ler2 lb step
                   (eval_mode (feed_dict_dev_csj net (csj_train lb step) (csj_dev lb step))))]
        \<and> csv_ler_second_dev (step_csj lb net lr ipe ms st step)
          = csv_ler_second_dev st
              @ [snd (sess_ler2 lb step
                   (eval_mode (feed_dict_dev_csj net (csj_train lb step) (csj_dev lb step))))])"
  by (simp add: feed_dict_dev_csj_def eval_mode_def step_csj_def log_csj_def epoch_csj_def Let_def)

section \<open>The projection layer of \<open>LSTM_CTC\<close>\<close>

text \<open>
  C10, as the claim states it, fails when a bottleneck layer is configured: with
  \<open>num_proj = 0\<close> and \<open>bottleneck_dim = 5\<close> the output affine layer is fed vectors of
  dimension 5, not of dimension \<open>num_unit = 3\<close>.
\<close>

theorem num_proj_zero_bottleneck_counterexample:
  "fst (W_output (build (LSTM_CTC_init ex_base (Some 0) (Some 5)))) = 5
   \<and> num_unit ex_base = 3
   \<and> num_proj (LSTM_CTC_init ex_base (Some 0) (Some 5)) = None"
  by (simp add: build_def LSTM_CTC_init_def ex_base_def Let_def)

text \<open>
  C10, amended. \<open>LSTM_CTC.__init__\<close> turns \<open>num_proj = 0\<close> into \<open>None\<close>: the object is the
  one constructed with \<open>num_proj = None\<close>, every LSTM cell of \<open>_build\<close> has no projection
  layer, and the RNN outputs are reshaped to vectors of dimension \<open>num_unit\<close>. These feed
  the output affine layer when no bottleneck is configured (\<open>bottleneck_dim\<close> is \<open>None\<close>
  or 0); otherwise they feed the bottleneck layer, and the output affine layer takes
  vectors of dimension \<open>bottleneck_dim\<close>.
\<close>

theorem num_proj_zero_is_None:
  "LSTM_CTC_init b (Some 0) bd = LSTM_CTC_init b None bd
   \<and> num_proj (LSTM_CTC_init b (Some 0) bd) = None
   \<and> list_all (\<lambda>c. cell_num_proj c = None) (cells (build (LSTM_CTC_init b (Some 0) bd)))
   \<and> length (cells (build (LSTM_CTC_init b (Some 0) bd))) = nat (num_layer b)
   \<and> reshape_dim (build (LSTM_CTC_init b (Some 0) bd)) = num_unit b
   \<and> W_bottleneck (build (LSTM_CTC_init b (Some 0) bd))
       = (if bd = None \<or> bd = Some 0 then None else Some (num_unit b, the bd))
   \<and> W_output (build (LSTM_CTC_init b (Some 0) bd))
       = (if bd = None \<or> bd = Some 0 then num_unit b else the bd, num_classes b)"
  by (simp add: build_def LSTM_CTC_init_def make_cell_def list_all_iff Let_def)

text \<open>The example object, without and with a bottleneck layer.\<close>

theorem num_proj_zero_is_None_witness:
  "LSTM_CTC_init ex_base (Some 0) None = LSTM_CTC_init ex_base None None
   \<and> W_output (build (LSTM_CTC_init ex_base (Some 0) None)) = (3, 4)
   \<and> W_output (build (LSTM_CTC_init ex_base (Some 0) (Some 5))) = (5, 4)"
  using num_proj_zero_is_None [of ex_base None] num_proj_zero_is_None [of ex_base "Some 5"]
  by (simp add: ex_base_def LSTM_CTC_init_def)

end
